theory Spec2Isabelle
  imports Main
begin

section \<open>JavaScript values used by the Confluence service\<close>

text \<open>
  An optional string parameter (\<open>string | undefined\<close>) is a \<open>string option\<close>.
  JavaScript treats both \<open>undefined\<close> and the empty string as falsy, which is what
  the tests \<open>if (x)\<close>, \<open>!x\<close> and \<open>x || y\<close> of the source look at.
\<close>

definition truthy :: "string option \<Rightarrow> bool" where
  "truthy s = (case s of None \<Rightarrow> False | Some v \<Rightarrow> v \<noteq> [])"

text \<open>
  \<open>x || y\<close> for an optional string \<open>x\<close> and a string \<open>y\<close>. Strings are lists of
  characters; the service only tests them for emptiness, concatenates them and searches
  them, so nothing below depends on the alphabet.
\<close>

definition or_else :: "string option \<Rightarrow> string \<Rightarrow> string" where
  "or_else x y = (case x of None \<Rightarrow> y | Some v \<Rightarrow> if v \<noteq> [] then v else y)"

text \<open>\<open>String.prototype.startsWith\<close> and \<open>String.prototype.includes\<close>.\<close>

fun startsWith :: "string \<Rightarrow> string \<Rightarrow> bool" where
  "startsWith s [] = True"
| "startsWith [] (p # ps) = False"
| "startsWith (c # cs) (p # ps) = (c = p \<and> startsWith cs ps)"

fun string_includes :: "string \<Rightarrow> string \<Rightarrow> bool" where
  "string_includes [] pat = (pat = [])"
| "string_includes (c # cs) pat = (startsWith (c # cs) pat \<or> string_includes cs pat)"

section \<open>Data model\<close>

text \<open>The interface \<open>ConfluenceContent\<close> and the objects nested in it.\<close>

record space =
  key :: string

record storage =
  storage_value :: string
  representation :: string

record body =
  storage :: storage

record 'n version =
  number :: 'n
  message :: "string option"

record ancestor =
  anc_id :: string

record 'n ConfluenceContent =
  cc_id :: "string option"
  cc_type :: string
  cc_title :: string
  cc_space :: space
  cc_body :: "body option"
  cc_version :: "'n version option"
  cc_ancestors :: "ancestor list option"

text \<open>The object literal built by \<open>addComment\<close> (typed \<open>any\<close> in the source).\<close>

record container =
  ct_id :: string
  ct_type :: string

record commentObj =
  co_type :: string
  co_container :: container
  co_body :: body
  co_ancestors :: "ancestor list option"

text \<open>The label object \<open>{ name, prefix }\<close> sent by \<open>addLabel\<close>.\<close>

record label =
  l_name :: string
  l_prefix :: string

text \<open>
  The shape the update tool asserts for fetched data:
  \<open>currentContent.data as { type; title; space }\<close>.
\<close>

record contentData =
  cd_type :: string
  cd_title :: string
  cd_space :: space

text \<open>The result envelope \<open>{ success, data?, error? }\<close>.\<close>

record 'd envelope =
  success :: bool
  data :: "'d option"
  error :: "string option"

section \<open>The remote API and the global client configuration\<close>

text \<open>The module-global object \<open>OpenAPI\<close> of the generated client.\<close>

record openapi =
  BASE :: string
  TOKEN :: "string option"
  VERSION :: string

text \<open>
  The operations of the generated client that the service calls, with their arguments in
  the order of the call. \<open>'n\<close> is the type of JavaScript numbers, which the service only
  passes on. \<open>createContent\<close> receives either a \<open>ConfluenceContent\<close> or the comment
  object of \<open>addComment\<close>.
\<close>

datatype 'n create_arg = Content "'n ConfluenceContent" | Comment commentObj

datatype 'n remote_call =
    GetContentById string string
  | Search1 "string option" "string option" "string option" "string option"
      "string option" "string option" string
  | CreateContent "'n create_arg"
  | Update2 string "'n ConfluenceContent"
  | AddLabels string label

text \<open>
  The state the program acts on: the global \<open>OpenAPI\<close> object and the remote operations
  issued so far, each with the configuration in force when it was issued.
\<close>

record 'n world =
  OpenAPI :: openapi
  calls :: "(openapi \<times> 'n remote_call) list"

text \<open>
  The envelope's \<open>data\<close> is whatever the remote operation returned: the source puts no
  constraint on it. It is \<open>null\<close>, a boolean, a number, a string, or an object
  (arrays included) of some type \<open>'d\<close>; an absent \<open>data\<close> is \<open>None\<close> in the envelope.
\<close>

datatype ('n, 'd) js_value =
    JNull
  | JBoolean bool
  | JNumber 'n
  | JString string
  | JObject 'd

text \<open>
  What the source imports and does not define, taken as parameters: the envelope that
  comes back for a remote operation issued in a given state with a given error label
  (\<open>remote\<close>), \<open>Number.prototype.toString\<close>, the truth value of a number (false for
  \<open>0\<close> and \<open>NaN\<close>), the reading of raw fetched data at the asserted shape, and
  \<open>formatToolResponse\<close>.
\<close>

record ('n, 'd, 'r) env =
  remote :: "'n world \<Rightarrow> 'n remote_call \<Rightarrow> string \<Rightarrow> ('n, 'd) js_value envelope"
  numberToString :: "'n \<Rightarrow> string"
  numberToBoolean :: "'n \<Rightarrow> bool"
  asContent :: "('n, 'd) js_value \<Rightarrow> contentData"
  formatToolResponse :: "('n, 'd) js_value envelope \<Rightarrow> 'r"

text \<open>
  JavaScript's truth value of an optional value, as \<open>!x\<close> and \<open>if (x)\<close> test it:
  \<open>undefined\<close>, \<open>null\<close>, \<open>false\<close>, \<open>0\<close>, \<open>NaN\<close> and the empty string are falsy,
  every object is truthy.
\<close>

definition toBoolean :: "('n, 'd, 'r) env \<Rightarrow> ('n, 'd) js_value option \<Rightarrow> bool" where
  "toBoolean e x =
     (case x of
        None \<Rightarrow> False
      | Some JNull \<Rightarrow> False
      | Some (JBoolean b) \<Rightarrow> b
      | Some (JNumber n) \<Rightarrow> numberToBoolean e n
      | Some (JString s) \<Rightarrow> s \<noteq> []
      | Some (JObject ob) \<Rightarrow> True)"

text \<open>
  Modelled from the spec: \<open>handleApiOperation\<close> of the package \<open>common\<close> is not among
  the sources. By the spec every gateway method invokes exactly one remote operation,
  against the configured base URL and token, and returns a result envelope. The model
  records the operation with the configuration in force and leaves the envelope to
  the parameter \<open>remote\<close>.
\<close>

definition handleApiOperation ::
  "('n, 'd, 'r) env \<Rightarrow> 'n remote_call \<Rightarrow> string \<Rightarrow> 'n world \<Rightarrow> ('n, 'd) js_value envelope \<times> 'n world" where
  "handleApiOperation e operation errorMessage w =
     (remote e w operation errorMessage,
      w\<lparr>calls := calls w @ [(OpenAPI w, operation)]\<rparr>)"

section \<open>ConfluenceService\<close>

text \<open>
  The class has no instance fields: an instance carries no data. Every method awaits its
  one remote operation, so a method is a function from the state before the call to its
  result and the state after it.
\<close>

datatype ConfluenceService = ConfluenceService

datatype js_error = Error string

text \<open>
  The constructor writes the global \<open>OpenAPI\<close>; the \<open>throw\<close> happens before any
  assignment, so a failed construction leaves the state as it was.
\<close>

definition constructor ::
  "string option \<Rightarrow> string \<Rightarrow> string option \<Rightarrow> 'n world \<Rightarrow> js_error + (ConfluenceService \<times> 'n world)" where
  "constructor host token fullApiUrl w =
     (let finish = (\<lambda>w1. Inr (ConfluenceService,
            w1\<lparr>OpenAPI := (OpenAPI w1)\<lparr>TOKEN := Some token, VERSION := ''1.0''\<rparr>\<rparr>))
      in if truthy fullApiUrl then
           finish (w\<lparr>OpenAPI := (OpenAPI w)\<lparr>BASE := the fullApiUrl\<rparr>\<rparr>)
         else if truthy host then
           finish (w\<lparr>OpenAPI := (OpenAPI w)\<lparr>BASE := ''https://'' @ the host\<rparr>\<rparr>)
         else Inl (Error ''Either host or fullApiUrl must be provided''))"

definition getContent ::
  "('n, 'd, 'r) env \<Rightarrow> ConfluenceService \<Rightarrow> string \<Rightarrow> string option \<Rightarrow> 'n world
     \<Rightarrow> ('n, 'd) js_value envelope \<times> 'n world" where
  "getContent e this contentId expand w =
     (let expandValue = or_else expand ''body.storage'';
          finalExpand = (if truthy expand \<and> \<not> string_includes (the expand) ''body.storage''
                         then the expand @ '',body.storage''
                         else expandValue)
      in handleApiOperation e (GetContentById contentId finalExpand) ''Error getting content'' w)"

definition searchContent ::
  "('n, 'd, 'r) env \<Rightarrow> ConfluenceService \<Rightarrow> string \<Rightarrow> 'n option \<Rightarrow> 'n option \<Rightarrow> string option
     \<Rightarrow> 'n world \<Rightarrow> ('n, 'd) js_value envelope \<times> 'n world" where
  "searchContent e this cql limit start expand w =
     handleApiOperation e
       (Search1 None expand None (map_option (numberToString e) limit)
          (map_option (numberToString e) start) None cql)
       ''Error searching for content'' w"

definition createContent ::
  "('n, 'd, 'r) env \<Rightarrow> ConfluenceService \<Rightarrow> 'n ConfluenceContent \<Rightarrow> 'n world
     \<Rightarrow> ('n, 'd) js_value envelope \<times> 'n world" where
  "createContent e this content w =
     handleApiOperation e (CreateContent (Content content)) ''Error creating content'' w"

definition updateContent ::
  "('n, 'd, 'r) env \<Rightarrow> ConfluenceService \<Rightarrow> string \<Rightarrow> 'n ConfluenceContent \<Rightarrow> 'n world
     \<Rightarrow> ('n, 'd) js_value envelope \<times> 'n world" where
  "updateContent e this contentId content w =
     handleApiOperation e (Update2 contentId content) ''Error updating content'' w"

text \<open>
  \<open>prefix: string = 'global'\<close>: a default parameter takes its default only when the
  argument is \<open>undefined\<close>.
\<close>

definition addLabel ::
  "('n, 'd, 'r) env \<Rightarrow> ConfluenceService \<Rightarrow> string \<Rightarrow> string \<Rightarrow> string option \<Rightarrow> 'n world
     \<Rightarrow> ('n, 'd) js_value envelope \<times> 'n world" where
  "addLabel e this contentId labelName prefix w =
     (let prefix' = (case prefix of None \<Rightarrow> ''global'' | Some p \<Rightarrow> p)
      in handleApiOperation e
           (AddLabels contentId \<lparr>l_name = labelName, l_prefix = prefix'\<rparr>)
           ''Error adding label'' w)"

definition addComment ::
  "('n, 'd, 'r) env \<Rightarrow> ConfluenceService \<Rightarrow> string \<Rightarrow> string \<Rightarrow> string option \<Rightarrow> 'n world
     \<Rightarrow> ('n, 'd) js_value envelope \<times> 'n world" where
  "addComment e this contentId body parentCommentId w =
     (let commentObj = \<lparr>co_type = ''comment'',
                         co_container = \<lparr>ct_id = contentId, ct_type = ''page''\<rparr>,
                         co_body = \<lparr>storage = \<lparr>storage_value = body, representation = ''storage''\<rparr>\<rparr>,
                         co_ancestors = None\<rparr>;
          commentObj = (if truthy parentCommentId
                        then commentObj\<lparr>co_ancestors := Some [\<lparr>anc_id = the parentCommentId\<rparr>]\<rparr>
                        else commentObj)
      in handleApiOperation e (CreateContent (Comment commentObj)) ''Error adding comment'' w)"

definition searchSpaces ::
  "('n, 'd, 'r) env \<Rightarrow> ConfluenceService \<Rightarrow> string \<Rightarrow> 'n option \<Rightarrow> 'n option \<Rightarrow> string option
     \<Rightarrow> 'n world \<Rightarrow> ('n, 'd) js_value envelope \<times> 'n world" where
  "searchSpaces e this searchText limit start expand w =
     (let cql = ''type=space AND title ~ '' @ [CHR 0x22] @ searchText @ [CHR 0x22]
      in handleApiOperation e
           (Search1 None expand None (map_option (numberToString e) limit)
              (map_option (numberToString e) start) None cql)
           ''Error searching for spaces'' w)"

text \<open>\<open>validateConfig\<close> reads \<open>process.env\<close>, a map from variable names to strings.\<close>

definition validateConfig :: "(string \<rightharpoonup> string) \<Rightarrow> string list" where
  "validateConfig process_env =
     (let missingVars = [];
          missingVars = (if \<not> truthy (process_env ''CONFLUENCE_API_TOKEN'')
                         then missingVars @ [''CONFLUENCE_API_TOKEN'']
                         else missingVars);
          missingVars = (if \<not> truthy (process_env ''CONFLUENCE_HOST'')
                            \<and> \<not> truthy (process_env ''CONFLUENCE_API_BASE_PATH'')
                         then missingVars @ [''CONFLUENCE_HOST or CONFLUENCE_API_BASE_PATH'']
                         else missingVars)
      in missingVars)"

section \<open>The tool \<open>confluence_updateContent\<close>\<close>

text \<open>
  The handler of the tool, with its destructured arguments in the order of the source.
  \<open>!currentContent.data\<close> holds when \<open>data\<close> is absent or falsy; past that test
  \<open>data\<close> is present, and the handler reads it at the shape it asserts.
\<close>

definition confluence_updateContent ::
  "('n, 'd, 'r) env \<Rightarrow> ConfluenceService \<Rightarrow> string \<Rightarrow> string option \<Rightarrow> string option \<Rightarrow> 'n
     \<Rightarrow> string option \<Rightarrow> 'n world \<Rightarrow> 'r \<times> 'n world" where
  "confluence_updateContent e confluenceService contentId title content version versionComment w =
     (let (currentContent, w1) = getContent e confluenceService contentId None w
      in if \<not> success currentContent \<or> \<not> toBoolean e (data currentContent) then
           (formatToolResponse e
              \<lparr>success = False, data = None,
               error = Some (''Failed to retrieve content with ID '' @ contentId @ '': ''
                             @ or_else (error currentContent) ''Unknown error'')\<rparr>,
            w1)
         else
           let contentData = asContent e (the (data currentContent));
               updateObj = \<lparr>cc_id = Some contentId,
                              cc_type = cd_type contentData,
                              cc_title = or_else title (cd_title contentData),
                              cc_space = cd_space contentData,
                              cc_body = None,
                              cc_version = Some \<lparr>number = version, message = versionComment\<rparr>,
                              cc_ancestors = None\<rparr>;
               updateObj = (if truthy content
                            then updateObj\<lparr>cc_body := Some \<lparr>storage =
                                   \<lparr>storage_value = the content, representation = ''storage''\<rparr>\<rparr>\<rparr>
                            else updateObj);
               (result, w2) = updateContent e confluenceService contentId updateObj w1
           in (formatToolResponse e result, w2))"

section \<open>Concrete inputs\<close>

text \<open>Decimal digits of a natural number, as \<open>toString\<close> prints a non-negative integer.\<close>

function decimal :: "nat \<Rightarrow> string" where
  "decimal n = (if n < 10 then [''0123456789'' ! n]
                else decimal (n div 10) @ [''0123456789'' ! (n mod 10)])"
  by pat_completeness auto
termination
  by (relation "measure (\<lambda>n. n)") auto

declare decimal.simps [simp del]

definition world0 :: "nat world" where
  "world0 = \<lparr>OpenAPI = \<lparr>BASE = ''http://localhost'', TOKEN = None, VERSION = ''0''\<rparr>, calls = []\<rparr>"

definition page0 :: contentData where
  "page0 = \<lparr>cd_type = ''page'', cd_title = ''Old'', cd_space = \<lparr>key = ''X''\<rparr>\<rparr>"

text \<open>
  Reading a fetched value at the asserted shape: an object is its own content. A primitive
  has none of the three properties; the examples never read one.
\<close>

definition asPage :: "(nat, contentData) js_value \<Rightarrow> contentData" where
  "asPage v = (case v of JObject c \<Rightarrow> c
               | _ \<Rightarrow> \<lparr>cd_type = [], cd_title = [], cd_space = \<lparr>key = []\<rparr>\<rparr>)"

text \<open>A remote that answers every operation with the page \<open>page0\<close>.\<close>

definition env_ok :: "(nat, contentData, (nat, contentData) js_value envelope) env" where
  "env_ok = \<lparr>remote = (\<lambda>w c m. \<lparr>success = True, data = Some (JObject page0), error = None\<rparr>),
             numberToString = decimal,
             numberToBoolean = (\<lambda>n. n \<noteq> 0),
             asContent = asPage,
             formatToolResponse = (\<lambda>r. r)\<rparr>"

text \<open>A remote whose every operation fails with the error \<open>boom\<close>.\<close>

definition env_boom :: "(nat, contentData, (nat, contentData) js_value envelope) env" where
  "env_boom = \<lparr>remote = (\<lambda>w c m. \<lparr>success = False, data = None, error = Some ''boom''\<rparr>),
               numberToString = decimal,
               numberToBoolean = (\<lambda>n. n \<noteq> 0),
               asContent = asPage,
               formatToolResponse = (\<lambda>r. r)\<rparr>"

text \<open>A remote whose every operation succeeds with the empty string as its data.\<close>

definition env_empty :: "(nat, contentData, (nat, contentData) js_value envelope) env" where
  "env_empty = \<lparr>remote = (\<lambda>w c m. \<lparr>success = True, data = Some (JString []), error = None\<rparr>),
                numberToString = decimal,
                numberToBoolean = (\<lambda>n. n \<noteq> 0),
                asContent = asPage,
                formatToolResponse = (\<lambda>r. r)\<rparr>"

section \<open>Helper lemmas\<close>

text \<open>\<open>string_includes\<close> is substring containment.\<close>

lemma startsWith_iff: "startsWith s pat \<longleftrightarrow> (\<exists>post. s = pat @ post)"
  by (induction s pat rule: startsWith.induct) auto

lemma string_includes_iff: "string_includes s pat \<longleftrightarrow> (\<exists>pre post. s = pre @ pat @ post)"
proof (induction s)
  case Nil
  show ?case by auto
next
  case (Cons c cs)
  have "(\<exists>pre post. c # cs = pre @ pat @ post) \<longleftrightarrow>
        (\<exists>post. c # cs = pat @ post) \<or> (\<exists>pre post. cs = pre @ pat @ post)"
  proof
    assume "\<exists>pre post. c # cs = pre @ pat @ post"
    then obtain pre post where eq: "c # cs = pre @ pat @ post" by blast
    show "(\<exists>post. c # cs = pat @ post) \<or> (\<exists>pre post. cs = pre @ pat @ post)"
    proof (cases pre)
      case Nil
      with eq show ?thesis by auto
    next
      case (Cons p ps)
      with eq have "cs = ps @ pat @ post" by simp
      then show ?thesis by blast
    qed
  next
    assume "(\<exists>post. c # cs = pat @ post) \<or> (\<exists>pre post. cs = pre @ pat @ post)"
    then show "\<exists>pre post. c # cs = pre @ pat @ post"
    proof
      assume "\<exists>post. c # cs = pat @ post"
      then obtain post where "c # cs = [] @ pat @ post" by auto
      then show ?thesis by blast
    next
      assume "\<exists>pre post. cs = pre @ pat @ post"
      then obtain pre post where "c # cs = (c # pre) @ pat @ post" by auto
      then show ?thesis by blast
    qed
  qed
  with Cons show ?case by (simp add: startsWith_iff)
qed

lemma string_includes_middle: "string_includes (pre @ pat @ post) pat"
  unfolding string_includes_iff by blast

lemma string_includes_nil: "string_includes s []"
  by (induction s) auto

lemma fst_handleApiOperation:
  "fst (handleApiOperation e operation msg w) = remote e w operation msg"
  by (simp add: handleApiOperation_def)

lemma snd_handleApiOperation:
  "snd (handleApiOperation e operation msg w) = w\<lparr>calls := calls w @ [(OpenAPI w, operation)]\<rparr>"
  by (simp add: handleApiOperation_def)

lemma getContent_None:
  "getContent e this cid None w =
     handleApiOperation e (GetContentById cid ''body.storage'') ''Error getting content'' w"
  by (simp add: getContent_def or_else_def truthy_def)

section \<open>getContent: the effective expand\<close>

text \<open>
  C3 (as amended). For every call to \<open>getContent\<close>: when no expand argument or the
  empty string is supplied, the expand passed to the remote operation is exactly
  \<open>body.storage\<close>; when a non-empty expand not containing \<open>body.storage\<close> is
  supplied, it is the input followed by \<open>,body.storage\<close>; when the supplied expand
  contains \<open>body.storage\<close>, the input is passed through unchanged.
\<close>

theorem getContent_effective_expand:
  "(expand = None \<or> expand = Some [] \<longrightarrow>
      calls (snd (getContent e this cid expand w))
        = calls w @ [(OpenAPI w, GetContentById cid ''body.storage'')])
   \<and> (\<forall>x. expand = Some x \<and> x \<noteq> [] \<and> \<not> string_includes x ''body.storage'' \<longrightarrow>
      calls (snd (getContent e this cid expand w))
        = calls w @ [(OpenAPI w, GetContentById cid (x @ '',body.storage''))])
   \<and> (\<forall>x. expand = Some x \<and> string_includes x ''body.storage'' \<longrightarrow>
      calls (snd (getContent e this cid expand w))
        = calls w @ [(OpenAPI w, GetContentById cid x)])"
  by (auto simp: getContent_def or_else_def truthy_def snd_handleApiOperation)

theorem getContent_effective_expand_witness:
  "calls (snd (getContent env_ok ConfluenceService ''42'' None world0))
     = [(OpenAPI world0, GetContentById ''42'' ''body.storage'')]
   \<and> calls (snd (getContent env_ok ConfluenceService ''42'' (Some ''version'') world0))
     = [(OpenAPI world0, GetContentById ''42'' ''version,body.storage'')]
   \<and> calls (snd (getContent env_ok ConfluenceService ''42'' (Some ''body.storage,version'') world0))
     = [(OpenAPI world0, GetContentById ''42'' ''body.storage,version'')]"
  using getContent_effective_expand [of None env_ok ConfluenceService "''42''" world0]
    getContent_effective_expand [of "Some ''version''" env_ok ConfluenceService "''42''" world0]
    getContent_effective_expand [of "Some ''body.storage,version''" env_ok ConfluenceService "''42''" world0]
  by (simp add: world0_def)

text \<open>
  C3 as stated fails at the empty string: it is a supplied expand that does not contain
  \<open>body.storage\<close>, and the remote operation receives \<open>body.storage\<close>, not
  \<open>,body.storage\<close>.
\<close>

theorem getContent_empty_expand_counterexample:
  "\<not> string_includes [] ''body.storage''
   \<and> calls (snd (getContent env_ok ConfluenceService ''42'' (Some []) world0))
       = [(OpenAPI world0, GetContentById ''42'' ''body.storage'')]
   \<and> calls (snd (getContent env_ok ConfluenceService ''42'' (Some []) world0))
       \<noteq> [(OpenAPI world0, GetContentById ''42'' ([] @ '',body.storage''))]"
  by (simp add: getContent_def or_else_def truthy_def snd_handleApiOperation world0_def)

text \<open>
  C9. The test for \<open>body.storage\<close> is substring containment: every expand of the form
  \<open>pre @ body.storage @ post\<close>, also where \<open>body.storage\<close> is part of a longer field
  name, is passed through unchanged; and the empty string is treated as absent, giving
  exactly \<open>body.storage\<close>.
\<close>

theorem getContent_substring_check:
  "calls (snd (getContent e this cid (Some (pre @ ''body.storage'' @ post)) w))
     = calls w @ [(OpenAPI w, GetContentById cid (pre @ ''body.storage'' @ post))]
   \<and> calls (snd (getContent e this cid (Some []) w))
     = calls w @ [(OpenAPI w, GetContentById cid ''body.storage'')]"
  using string_includes_middle [of pre "''body.storage''" post]
  by (simp add: getContent_def or_else_def truthy_def snd_handleApiOperation)

theorem getContent_substring_check_witness:
  "calls (snd (getContent env_ok ConfluenceService ''42'' (Some ''abody.storagex'') world0))
     = [(OpenAPI world0, GetContentById ''42'' ''abody.storagex'')]
   \<and> calls (snd (getContent env_ok ConfluenceService ''42'' (Some []) world0))
     = [(OpenAPI world0, GetContentById ''42'' ''body.storage'')]"
  using getContent_substring_check [of env_ok ConfluenceService "''42''" "''a''" "''x''" world0]
  by (simp add: world0_def)

section \<open>The update tool: fetch, merge, write\<close>

lemma fst_getContent_None:
  "fst (getContent e this cid None w)
     = remote e w (GetContentById cid ''body.storage'') ''Error getting content''"
  by (simp add: getContent_None fst_handleApiOperation)

lemma snd_getContent_None:
  "snd (getContent e this cid None w)
     = w\<lparr>calls := calls w @ [(OpenAPI w, GetContentById cid ''body.storage'')]\<rparr>"
  by (simp add: getContent_None snd_handleApiOperation)

lemma toBoolean_None: "\<not> toBoolean e None"
  by (simp add: toBoolean_def)

lemma confluence_updateContent_failure:
  assumes "\<not> success (fst (getContent e svc cid None w))
           \<or> \<not> toBoolean e (data (fst (getContent e svc cid None w)))"
  shows "confluence_updateContent e svc cid title content version versionComment w =
           (formatToolResponse e
              \<lparr>success = False, data = None,
               error = Some (''Failed to retrieve content with ID '' @ cid @ '': ''
                  @ or_else (error (fst (getContent e svc cid None w))) ''Unknown error'')\<rparr>,
            snd (getContent e svc cid None w))"
  using assms by (auto simp: confluence_updateContent_def split: prod.splits)

text \<open>
  Data that is present but falsy takes the same exit: with the empty string as data the
  tool reports \<open>Unknown error\<close> and issues no \<open>update2\<close>.
\<close>

lemma confluence_updateContent_empty_data:
  "confluence_updateContent env_empty ConfluenceService ''42'' (Some ''T'') (Some ''<p>new</p>'')
       5 (Some ''c'') world0
     = (\<lparr>success = False, data = None,
         error = Some ''Failed to retrieve content with ID 42: Unknown error''\<rparr>,
        world0\<lparr>calls := [(OpenAPI world0, GetContentById ''42'' ''body.storage'')]\<rparr>)"
  by (simp add: confluence_updateContent_def getContent_None handleApiOperation_def
        toBoolean_def env_empty_def world0_def or_else_def)

lemma confluence_updateContent_success:
  assumes "success (fst (getContent e svc cid None w))"
    and "data (fst (getContent e svc cid None w)) = Some d"
    and "toBoolean e (Some d)"
  shows "confluence_updateContent e svc cid title content version versionComment w =
           (let w1 = snd (getContent e svc cid None w);
                payload = \<lparr>cc_id = Some cid,
                   cc_type = cd_type (asContent e d),
                   cc_title = or_else title (cd_title (asContent e d)),
                   cc_space = cd_space (asContent e d),
                   cc_body = (if truthy content
                              then Some \<lparr>storage = \<lparr>storage_value = the content,
                                                      representation = ''storage''\<rparr>\<rparr>
                              else None),
                   cc_version = Some \<lparr>number = version, message = versionComment\<rparr>,
                   cc_ancestors = None\<rparr>
            in (formatToolResponse e (fst (updateContent e svc cid payload w1)),
                snd (updateContent e svc cid payload w1)))"
  using assms
  by (auto simp: confluence_updateContent_def Let_def split: prod.splits)

text \<open>
  C1 (as amended). When the initial fetch succeeds with data that is truthy (present and
  not \<open>null\<close>, \<open>false\<close>, \<open>0\<close>, \<open>NaN\<close> or the empty string), the tool issues the fetch
  and then one \<open>update2\<close> whose payload has: the title given by the caller when it is
  non-empty, otherwise the fetched title; type and space of the fetched state; version
  \<open>{number: version, message: versionComment}\<close> from the caller alone; and a body,
  wrapped in the storage representation, exactly when the caller gave non-empty content.
\<close>
theorem confluence_updateContent_payload:
  assumes "success (fst (getContent e svc cid None w))"
    and "data (fst (getContent e svc cid None w)) = Some d"
    and "toBoolean e (Some d)"
  shows "calls (snd (confluence_updateContent e svc cid title content version versionComment w))
     = calls w @
       [(OpenAPI w, GetContentById cid ''body.storage''),
        (OpenAPI w, Update2 cid
           \<lparr>cc_id = Some cid,
            cc_type = cd_type (asContent e d),
            cc_title = (case title of None \<Rightarrow> cd_title (asContent e d)
                        | Some t \<Rightarrow> if t = [] then cd_title (asContent e d) else t),
            cc_space = cd_space (asContent e d),
            cc_body = (case content of None \<Rightarrow> None
                       | Some c \<Rightarrow> if c = [] then None
                           else Some \<lparr>storage = \<lparr>storage_value = c,
                                                   representation = ''storage''\<rparr>\<rparr>),
            cc_version = Some \<lparr>number = version, message = versionComment\<rparr>,
            cc_ancestors = None\<rparr>)]"
  unfolding confluence_updateContent_success [OF assms]
  by (simp add: Let_def updateContent_def snd_handleApiOperation snd_getContent_None
        or_else_def truthy_def split: option.splits)

theorem confluence_updateContent_payload_witness:
  "success (fst (getContent env_ok ConfluenceService ''42'' None world0))
   \<and> data (fst (getContent env_ok ConfluenceService ''42'' None world0)) = Some (JObject page0)
   \<and> toBoolean env_ok (Some (JObject page0))
   \<and> calls (snd (confluence_updateContent env_ok ConfluenceService ''42'' None
        (Some ''<p>new</p>'') 5 (Some ''c'') world0))
     = [(OpenAPI world0, GetContentById ''42'' ''body.storage''),
        (OpenAPI world0, Update2 ''42''
           \<lparr>cc_id = Some ''42'', cc_type = ''page'', cc_title = ''Old'',
            cc_space = \<lparr>key = ''X''\<rparr>,
            cc_body = Some \<lparr>storage = \<lparr>storage_value = ''<p>new</p>'',
                                        representation = ''storage''\<rparr>\<rparr>,
            cc_version = Some \<lparr>number = 5, message = Some ''c''\<rparr>,
            cc_ancestors = None\<rparr>)]"
proof -
  have s: "success (fst (getContent env_ok ConfluenceService ''42'' None world0))"
    by (simp add: fst_getContent_None env_ok_def)
  have d: "data (fst (getContent env_ok ConfluenceService ''42'' None world0))
             = Some (JObject page0)"
    by (simp add: fst_getContent_None env_ok_def)
  have t: "toBoolean env_ok (Some (JObject page0))"
    by (simp add: toBoolean_def)
  show ?thesis
    using s d t
      confluence_updateContent_payload [OF s d t, of None "Some ''<p>new</p>''" 5 "Some ''c''"]
    by (simp add: env_ok_def asPage_def page0_def world0_def)
qed

text \<open>
  C1 as stated fails when the caller supplies the empty title: the payload carries the
  fetched title \<open>Old\<close>, not the caller's.
\<close>

theorem confluence_updateContent_empty_title_counterexample:
  "success (fst (getContent env_ok ConfluenceService ''42'' None world0))
   \<and> data (fst (getContent env_ok ConfluenceService ''42'' None world0)) = Some (JObject page0)
   \<and> calls (snd (confluence_updateContent env_ok ConfluenceService ''42'' (Some '''')
        (Some ''<p>new</p>'') 5 (Some ''c'') world0))
     = [(OpenAPI world0, GetContentById ''42'' ''body.storage''),
        (OpenAPI world0, Update2 ''42''
           \<lparr>cc_id = Some ''42'', cc_type = ''page'', cc_title = ''Old'',
            cc_space = \<lparr>key = ''X''\<rparr>,
            cc_body = Some \<lparr>storage = \<lparr>storage_value = ''<p>new</p>'',
                                        representation = ''storage''\<rparr>\<rparr>,
            cc_version = Some \<lparr>number = 5, message = Some ''c''\<rparr>,
            cc_ancestors = None\<rparr>)]
   \<and> ''Old'' \<noteq> ''''"
  by (simp add: confluence_updateContent_def getContent_None handleApiOperation_def
        updateContent_def toBoolean_def env_ok_def asPage_def page0_def world0_def
        or_else_def truthy_def)

text \<open>
  C2. When the initial fetch comes back with \<open>success = false\<close> or without data, the
  tool answers with a failure envelope whose message contains
  \<open>Failed to retrieve content\<close>, the content id and the error of the fetch, and the
  only remote operation issued is the fetch: no \<open>update2\<close> occurs.
\<close>
theorem confluence_updateContent_fetch_failed:
  assumes "\<not> success (fst (getContent e svc cid None w))
           \<or> data (fst (getContent e svc cid None w)) = None"
  shows "\<exists>msg.
      fst (confluence_updateContent e svc cid title content version versionComment w)
        = formatToolResponse e \<lparr>success = False, data = None, error = Some msg\<rparr>
      \<and> string_includes msg ''Failed to retrieve content''
      \<and> string_includes msg cid
      \<and> (\<forall>err. error (fst (getContent e svc cid None w)) = Some err \<longrightarrow> string_includes msg err)
      \<and> calls (snd (confluence_updateContent e svc cid title content version versionComment w))
          = calls w @ [(OpenAPI w, GetContentById cid ''body.storage'')]
      \<and> (\<forall>cfg i p. (cfg, Update2 i p) \<notin> set (drop (length (calls w))
            (calls (snd (confluence_updateContent e svc cid title content version versionComment w)))))"
proof -
  let ?cur = "fst (getContent e svc cid None w)"
  let ?tail = "or_else (error ?cur) ''Unknown error''"
  let ?msg = "''Failed to retrieve content with ID '' @ cid @ '': '' @ ?tail"
  have a: "string_includes ?msg ''Failed to retrieve content''"
    using string_includes_middle [of "[]" "''Failed to retrieve content''" "'' with ID '' @ cid @ '': '' @ ?tail"]
    by simp
  have b: "string_includes ?msg cid"
    using string_includes_middle [of "''Failed to retrieve content with ID ''" cid "'': '' @ ?tail"]
    by simp
  have c: "string_includes ?msg err" if "error ?cur = Some err" for err
  proof (cases "err = []")
    case True
    then show ?thesis by (simp add: string_includes_nil)
  next
    case False
    with that have "?tail = err" by (simp add: or_else_def)
    then show ?thesis
      using string_includes_middle [of "''Failed to retrieve content with ID '' @ cid @ '': ''" err "[]"]
      by simp
  qed
  have f: "\<not> success ?cur \<or> \<not> toBoolean e (data ?cur)"
    using assms by (auto simp: toBoolean_None)
  show ?thesis
    unfolding confluence_updateContent_failure [OF f]
    using a b c by (intro exI [of _ ?msg]) (simp add: snd_getContent_None)
qed

theorem confluence_updateContent_fetch_failed_witness:
  "\<not> success (fst (getContent env_boom ConfluenceService ''42'' None world0))
   \<and> (\<exists>msg. fst (confluence_updateContent env_boom ConfluenceService ''42'' (Some ''T'')
                 (Some ''<p>new</p>'') 5 (Some ''c'') world0)
              = \<lparr>success = False, data = None, error = Some msg\<rparr>
          \<and> string_includes msg ''Failed to retrieve content''
          \<and> string_includes msg ''42''
          \<and> string_includes msg ''boom'')
   \<and> calls (snd (confluence_updateContent env_boom ConfluenceService ''42'' (Some ''T'')
                 (Some ''<p>new</p>'') 5 (Some ''c'') world0))
       = [(OpenAPI world0, GetContentById ''42'' ''body.storage'')]"
proof -
  have f: "\<not> success (fst (getContent env_boom ConfluenceService ''42'' None world0))
           \<or> data (fst (getContent env_boom ConfluenceService ''42'' None world0)) = None"
    by (simp add: fst_getContent_None env_boom_def)
  have e: "error (fst (getContent env_boom ConfluenceService ''42'' None world0)) = Some ''boom''"
    by (simp add: fst_getContent_None env_boom_def)
  have n: "\<not> success (fst (getContent env_boom ConfluenceService ''42'' None world0))"
    by (simp add: fst_getContent_None env_boom_def)
  from confluence_updateContent_fetch_failed [OF f, of "Some ''T''" "Some ''<p>new</p>''" 5 "Some ''c''"]
  obtain msg where m:
    "fst (confluence_updateContent env_boom ConfluenceService ''42'' (Some ''T'')
                 (Some ''<p>new</p>'') 5 (Some ''c'') world0)
        = formatToolResponse env_boom \<lparr>success = False, data = None, error = Some msg\<rparr>"
    "string_includes msg ''Failed to retrieve content''"
    "string_includes msg ''42''"
    "\<forall>err. error (fst (getContent env_boom ConfluenceService ''42'' None world0)) = Some err
        \<longrightarrow> string_includes msg err"
    "calls (snd (confluence_updateContent env_boom ConfluenceService ''42'' (Some ''T'')
                 (Some ''<p>new</p>'') 5 (Some ''c'') world0))
       = calls world0 @ [(OpenAPI world0, GetContentById ''42'' ''body.storage'')]"
    by blast
  from m(4) e have "string_includes msg ''boom''" by blast
  moreover from m(1) have "fst (confluence_updateContent env_boom ConfluenceService ''42'' (Some ''T'')
                 (Some ''<p>new</p>'') 5 (Some ''c'') world0)
        = \<lparr>success = False, data = None, error = Some msg\<rparr>"
    by (simp add: env_boom_def)
  moreover from m(5) have "calls (snd (confluence_updateContent env_boom ConfluenceService ''42'' (Some ''T'')
                 (Some ''<p>new</p>'') 5 (Some ''c'') world0))
       = [(OpenAPI world0, GetContentById ''42'' ''body.storage'')]"
    by (simp add: world0_def)
  ultimately show ?thesis using n m(2,3) by blast
qed

section \<open>Search, comments and labels\<close>

text \<open>
  C4. For every search text \<open>T\<close>, \<open>searchSpaces\<close> issues the operation \<open>search1\<close> with
  the CQL \<open>type=space AND title ~ "T"\<close>, \<open>T\<close> being inserted as it is, and this is the
  very operation \<open>searchContent\<close> issues for that CQL.
\<close>

theorem searchSpaces_cql:
  "calls (snd (searchSpaces e this T limit start expand w))
     = calls w @
       [(OpenAPI w,
         Search1 None expand None (map_option (numberToString e) limit)
           (map_option (numberToString e) start) None
           (''type=space AND title ~ '' @ [CHR 0x22] @ T @ [CHR 0x22]))]
   \<and> calls (snd (searchSpaces e this T limit start expand w))
     = calls (snd (searchContent e this
          (''type=space AND title ~ '' @ [CHR 0x22] @ T @ [CHR 0x22]) limit start expand w))"
  by (simp add: searchSpaces_def searchContent_def snd_handleApiOperation)

theorem searchSpaces_cql_witness:
  "calls (snd (searchSpaces env_ok ConfluenceService [CHR ''a'', CHR 0x22, CHR ''b''] (Some 25)
       None (Some ''space'') world0))
     = [(OpenAPI world0,
         Search1 None (Some ''space'') None (Some ''25'') None None
           (''type=space AND title ~ '' @ [CHR 0x22, CHR ''a'', CHR 0x22, CHR ''b'', CHR 0x22]))]"
  using searchSpaces_cql [of env_ok ConfluenceService "[CHR ''a'', CHR 0x22, CHR ''b'']"
      "Some 25" None "Some ''space''" world0]
  by (simp add: env_ok_def world0_def decimal.simps)

text \<open>
  C5 (as amended). \<open>addComment\<close> passes to the generic create operation a payload with
  type \<open>comment\<close>, container \<open>{id: contentId, type: page}\<close> and the body wrapped in the
  storage representation; its ancestors are \<open>[{id: parentCommentId}]\<close> when a non-empty
  \<open>parentCommentId\<close> is supplied, and absent when none or the empty string is supplied.
\<close>

theorem addComment_payload:
  "calls (snd (addComment e this contentId body parentCommentId w))
     = calls w @
       [(OpenAPI w,
         CreateContent (Comment
           \<lparr>co_type = ''comment'',
            co_container = \<lparr>ct_id = contentId, ct_type = ''page''\<rparr>,
            co_body = \<lparr>storage = \<lparr>storage_value = body, representation = ''storage''\<rparr>\<rparr>,
            co_ancestors = (case parentCommentId of None \<Rightarrow> None
                            | Some p \<Rightarrow> if p = [] then None else Some [\<lparr>anc_id = p\<rparr>])\<rparr>))]"
  by (simp add: addComment_def truthy_def snd_handleApiOperation split: option.splits)

theorem addComment_payload_witness:
  "calls (snd (addComment env_ok ConfluenceService ''42'' ''<p>hi</p>'' (Some ''7'') world0))
     = [(OpenAPI world0,
         CreateContent (Comment
           \<lparr>co_type = ''comment'',
            co_container = \<lparr>ct_id = ''42'', ct_type = ''page''\<rparr>,
            co_body = \<lparr>storage = \<lparr>storage_value = ''<p>hi</p>'', representation = ''storage''\<rparr>\<rparr>,
            co_ancestors = Some [\<lparr>anc_id = ''7''\<rparr>]\<rparr>))]
   \<and> calls (snd (addComment env_ok ConfluenceService ''42'' ''<p>hi</p>'' None world0))
     = [(OpenAPI world0,
         CreateContent (Comment
           \<lparr>co_type = ''comment'',
            co_container = \<lparr>ct_id = ''42'', ct_type = ''page''\<rparr>,
            co_body = \<lparr>storage = \<lparr>storage_value = ''<p>hi</p>'', representation = ''storage''\<rparr>\<rparr>,
            co_ancestors = None\<rparr>))]"
  using addComment_payload [of env_ok ConfluenceService "''42''" "''<p>hi</p>''" "Some ''7''" world0]
    addComment_payload [of env_ok ConfluenceService "''42''" "''<p>hi</p>''" None world0]
  by (simp add: world0_def)

text \<open>
  C5 as stated fails when the empty string is supplied as \<open>parentCommentId\<close>: the
  payload has no ancestors, where the claim asks for \<open>[{id: ""}]\<close>.
\<close>

theorem addComment_empty_parent_counterexample:
  "calls (snd (addComment env_ok ConfluenceService ''42'' ''<p>hi</p>'' (Some '''') world0))
     = [(OpenAPI world0,
         CreateContent (Comment
           \<lparr>co_type = ''comment'',
            co_container = \<lparr>ct_id = ''42'', ct_type = ''page''\<rparr>,
            co_body = \<lparr>storage = \<lparr>storage_value = ''<p>hi</p>'', representation = ''storage''\<rparr>\<rparr>,
            co_ancestors = None\<rparr>))]
   \<and> None \<noteq> Some [\<lparr>anc_id = ''''\<rparr>]"
  by (simp add: addComment_def truthy_def Let_def handleApiOperation_def world0_def)

text \<open>
  C8. When the caller omits the prefix, \<open>addLabel\<close> sends the pair
  \<open>{name: labelName, prefix: global}\<close>; when a prefix is supplied, the pair carries it.
\<close>

theorem addLabel_prefix_default:
  "calls (snd (addLabel e this contentId labelName None w))
     = calls w @ [(OpenAPI w, AddLabels contentId \<lparr>l_name = labelName, l_prefix = ''global''\<rparr>)]
   \<and> calls (snd (addLabel e this contentId labelName (Some p) w))
     = calls w @ [(OpenAPI w, AddLabels contentId \<lparr>l_name = labelName, l_prefix = p\<rparr>)]"
  by (simp add: addLabel_def snd_handleApiOperation)

theorem addLabel_prefix_default_witness:
  "calls (snd (addLabel env_ok ConfluenceService ''42'' ''draft'' None world0))
     = [(OpenAPI world0, AddLabels ''42'' \<lparr>l_name = ''draft'', l_prefix = ''global''\<rparr>)]
   \<and> calls (snd (addLabel env_ok ConfluenceService ''42'' ''draft'' (Some ''team'') world0))
     = [(OpenAPI world0, AddLabels ''42'' \<lparr>l_name = ''draft'', l_prefix = ''team''\<rparr>)]"
  using addLabel_prefix_default [of env_ok ConfluenceService "''42''" "''draft''" world0 "''team''"]
  by (simp add: world0_def)

section \<open>Configuration\<close>

lemma openapi_overwrite:
  "c\<lparr>BASE := b, TOKEN := t, VERSION := v\<rparr> = \<lparr>BASE = b, TOKEN = t, VERSION = v\<rparr>"
  by (cases c) simp

lemma constructor_fullApiUrl:
  "p \<noteq> [] \<Longrightarrow> constructor host token (Some p) w
     = Inr (ConfluenceService, w\<lparr>OpenAPI := \<lparr>BASE = p, TOKEN = Some token, VERSION = ''1.0''\<rparr>\<rparr>)"
  by (simp add: constructor_def truthy_def Let_def openapi_overwrite)

lemma constructor_host:
  "fullApiUrl = None \<or> fullApiUrl = Some [] \<Longrightarrow> h \<noteq> [] \<Longrightarrow>
   constructor (Some h) token fullApiUrl w
     = Inr (ConfluenceService,
            w\<lparr>OpenAPI := \<lparr>BASE = ''https://'' @ h, TOKEN = Some token, VERSION = ''1.0''\<rparr>\<rparr>)"
  by (auto simp add: constructor_def truthy_def Let_def openapi_overwrite)

lemma constructor_neither:
  "host = None \<or> host = Some [] \<Longrightarrow> fullApiUrl = None \<or> fullApiUrl = Some [] \<Longrightarrow>
   constructor host token fullApiUrl w = Inl (Error ''Either host or fullApiUrl must be provided'')"
  by (auto simp add: constructor_def truthy_def Let_def)

lemma constructor_cases:
  obtains (neither) "host = None \<or> host = Some []" "fullApiUrl = None \<or> fullApiUrl = Some []"
  | (full) p where "fullApiUrl = Some p" "p \<noteq> []"
  | (host) h where "fullApiUrl = None \<or> fullApiUrl = Some []" "host = Some h" "h \<noteq> []"
  by (cases host; cases fullApiUrl) auto

text \<open>
  C6 (as amended). Construction fails, with the error
  \<open>Either host or fullApiUrl must be provided\<close>, exactly when both the hostname and the
  full base path are absent or empty; a non-empty full base path becomes the base URL as
  it is, whatever the hostname; with the full base path absent or empty, a non-empty
  hostname \<open>h\<close> gives the base URL \<open>https://h\<close>.
\<close>

theorem constructor_base:
  "(constructor host token fullApiUrl w = Inl (Error ''Either host or fullApiUrl must be provided'')
      \<longleftrightarrow> (host = None \<or> host = Some []) \<and> (fullApiUrl = None \<or> fullApiUrl = Some []))
   \<and> (\<forall>err. constructor host token fullApiUrl w = Inl err
         \<longrightarrow> err = Error ''Either host or fullApiUrl must be provided'')
   \<and> (\<forall>p. fullApiUrl = Some p \<and> p \<noteq> [] \<longrightarrow>
         constructor host token fullApiUrl w
           = Inr (ConfluenceService,
                  w\<lparr>OpenAPI := \<lparr>BASE = p, TOKEN = Some token, VERSION = ''1.0''\<rparr>\<rparr>))
   \<and> (\<forall>h. (fullApiUrl = None \<or> fullApiUrl = Some []) \<and> host = Some h \<and> h \<noteq> [] \<longrightarrow>
         constructor host token fullApiUrl w
           = Inr (ConfluenceService,
                  w\<lparr>OpenAPI := \<lparr>BASE = ''https://'' @ h, TOKEN = Some token, VERSION = ''1.0''\<rparr>\<rparr>))"
proof (cases rule: constructor_cases [of host fullApiUrl])
  case neither
  have "constructor host token fullApiUrl w = Inl (Error ''Either host or fullApiUrl must be provided'')"
    using neither by (rule constructor_neither)
  with neither show ?thesis by auto
next
  case (full p)
  have "constructor host token fullApiUrl w
     = Inr (ConfluenceService, w\<lparr>OpenAPI := \<lparr>BASE = p, TOKEN = Some token, VERSION = ''1.0''\<rparr>\<rparr>)"
    using full by (simp add: constructor_fullApiUrl)
  with full show ?thesis by auto
next
  case (host h)
  have "constructor host token fullApiUrl w
     = Inr (ConfluenceService,
            w\<lparr>OpenAPI := \<lparr>BASE = ''https://'' @ h, TOKEN = Some token, VERSION = ''1.0''\<rparr>\<rparr>)"
    using host by (simp add: constructor_host)
  with host show ?thesis by auto
qed

theorem constructor_base_witness:
  "constructor None ''tok'' None world0 = Inl (Error ''Either host or fullApiUrl must be provided'')
   \<and> constructor (Some ''wiki.example.com'') ''tok'' (Some ''https://proxy.example.com/wiki'') world0
       = Inr (ConfluenceService,
              world0\<lparr>OpenAPI := \<lparr>BASE = ''https://proxy.example.com/wiki'', TOKEN = Some ''tok'',
                                   VERSION = ''1.0''\<rparr>\<rparr>)
   \<and> constructor (Some ''wiki.example.com'') ''tok'' None world0
       = Inr (ConfluenceService,
              world0\<lparr>OpenAPI := \<lparr>BASE = ''https://wiki.example.com'', TOKEN = Some ''tok'',
                                   VERSION = ''1.0''\<rparr>\<rparr>)"
proof (intro conjI)
  show "constructor None ''tok'' None world0
          = Inl (Error ''Either host or fullApiUrl must be provided'')"
    using constructor_base [of None "''tok''" None world0, THEN conjunct1] by blast
  show "constructor (Some ''wiki.example.com'') ''tok'' (Some ''https://proxy.example.com/wiki'') world0
       = Inr (ConfluenceService,
              world0\<lparr>OpenAPI := \<lparr>BASE = ''https://proxy.example.com/wiki'', TOKEN = Some ''tok'',
                                   VERSION = ''1.0''\<rparr>\<rparr>)"
    using constructor_base [of "Some ''wiki.example.com''" "''tok''"
        "Some ''https://proxy.example.com/wiki''" world0,
        THEN conjunct2, THEN conjunct2, THEN conjunct1, THEN spec,
        of "''https://proxy.example.com/wiki''"]
    by simp
  show "constructor (Some ''wiki.example.com'') ''tok'' None world0
       = Inr (ConfluenceService,
              world0\<lparr>OpenAPI := \<lparr>BASE = ''https://wiki.example.com'', TOKEN = Some ''tok'',
                                   VERSION = ''1.0''\<rparr>\<rparr>)"
    using constructor_base [of "Some ''wiki.example.com''" "''tok''" None world0,
        THEN conjunct2, THEN conjunct2, THEN conjunct2, THEN spec, of "''wiki.example.com''"]
    by simp
qed
text \<open>
  C6 as stated fails on empty strings: construction fails although a hostname (the empty
  one) is supplied, and a supplied empty full base path does not become the base URL.
\<close>

theorem constructor_empty_string_counterexample:
  "constructor (Some '''') ''tok'' None world0
     = Inl (Error ''Either host or fullApiUrl must be provided'')
   \<and> constructor (Some ''wiki.example.com'') ''tok'' (Some '''') world0
     = Inr (ConfluenceService,
            world0\<lparr>OpenAPI := \<lparr>BASE = ''https://wiki.example.com'', TOKEN = Some ''tok'',
                                 VERSION = ''1.0''\<rparr>\<rparr>)
   \<and> ''https://wiki.example.com'' \<noteq> ''''"
  by (simp add: constructor_def truthy_def Let_def openapi_overwrite)
text \<open>
  C7 (as amended). \<open>validateConfig\<close> is total and lists the missing settings: with no
  variable set it returns the token entry and the host-or-base-path entry; the token entry
  is present exactly when the token is unset or empty; the host-or-base-path entry is
  present exactly when hostname and full base path are both unset or empty; the list is
  empty exactly when the token and at least one of hostname and full base path are
  non-empty.
\<close>

theorem validateConfig_missing:
  "validateConfig Map.empty
     = [''CONFLUENCE_API_TOKEN'', ''CONFLUENCE_HOST or CONFLUENCE_API_BASE_PATH'']
   \<and> (''CONFLUENCE_API_TOKEN'' \<in> set (validateConfig process_env)
        \<longleftrightarrow> process_env ''CONFLUENCE_API_TOKEN'' = None
            \<or> process_env ''CONFLUENCE_API_TOKEN'' = Some [])
   \<and> (''CONFLUENCE_HOST or CONFLUENCE_API_BASE_PATH'' \<in> set (validateConfig process_env)
        \<longleftrightarrow> (process_env ''CONFLUENCE_HOST'' = None \<or> process_env ''CONFLUENCE_HOST'' = Some [])
            \<and> (process_env ''CONFLUENCE_API_BASE_PATH'' = None
                \<or> process_env ''CONFLUENCE_API_BASE_PATH'' = Some []))
   \<and> (validateConfig process_env = []
        \<longleftrightarrow> (\<exists>t. process_env ''CONFLUENCE_API_TOKEN'' = Some t \<and> t \<noteq> [])
            \<and> ((\<exists>h. process_env ''CONFLUENCE_HOST'' = Some h \<and> h \<noteq> [])
                \<or> (\<exists>p. process_env ''CONFLUENCE_API_BASE_PATH'' = Some p \<and> p \<noteq> [])))
   \<and> set (validateConfig process_env)
        \<subseteq> {''CONFLUENCE_API_TOKEN'', ''CONFLUENCE_HOST or CONFLUENCE_API_BASE_PATH''}"
  by (cases "process_env ''CONFLUENCE_API_TOKEN''"; cases "process_env ''CONFLUENCE_HOST''";
      cases "process_env ''CONFLUENCE_API_BASE_PATH''")
     (auto simp: validateConfig_def truthy_def Let_def)

theorem validateConfig_missing_witness:
  "validateConfig [''CONFLUENCE_API_TOKEN'' \<mapsto> ''secret'', ''CONFLUENCE_HOST'' \<mapsto> ''wiki.example.com''] = []
   \<and> ''CONFLUENCE_HOST or CONFLUENCE_API_BASE_PATH''
       \<in> set (validateConfig [''CONFLUENCE_API_TOKEN'' \<mapsto> ''secret''])
   \<and> ''CONFLUENCE_API_TOKEN'' \<in> set (validateConfig [''CONFLUENCE_HOST'' \<mapsto> ''wiki.example.com''])"
  using validateConfig_missing [of "[''CONFLUENCE_API_TOKEN'' \<mapsto> ''secret'', ''CONFLUENCE_HOST'' \<mapsto> ''wiki.example.com'']"]
    validateConfig_missing [of "[''CONFLUENCE_API_TOKEN'' \<mapsto> ''secret'']"]
    validateConfig_missing [of "[''CONFLUENCE_HOST'' \<mapsto> ''wiki.example.com'']"]
  by simp

text \<open>
  C7 as stated fails when the hostname is set to the empty string: the host-or-base-path
  entry is listed although the hostname is not unset.
\<close>

theorem validateConfig_empty_host_counterexample:
  "validateConfig [''CONFLUENCE_API_TOKEN'' \<mapsto> ''secret'', ''CONFLUENCE_HOST'' \<mapsto> '''']
     = [''CONFLUENCE_HOST or CONFLUENCE_API_BASE_PATH'']
   \<and> [''CONFLUENCE_API_TOKEN'' \<mapsto> ''secret'', ''CONFLUENCE_HOST'' \<mapsto> ''''] ''CONFLUENCE_HOST'' \<noteq> None"
  by (simp add: validateConfig_def truthy_def Let_def)

text \<open>
  C10. The constructor keeps base URL, token and API version in the one global
  \<open>OpenAPI\<close> object, not in the instance. After two successful constructions the global
  configuration is the one of the second: the state is what the second construction alone
  would have produced, and a remote operation issued afterwards through the first
  instance is issued with that configuration.
\<close>

theorem constructor_global_config:
  assumes "constructor host1 token1 full1 w = Inr (svc1, w1)"
    and "constructor host2 token2 full2 w1 = Inr (svc2, w2)"
  shows "TOKEN (OpenAPI w2) = Some token2
       \<and> VERSION (OpenAPI w2) = ''1.0''
       \<and> (\<forall>p. full2 = Some p \<and> p \<noteq> [] \<longrightarrow> BASE (OpenAPI w2) = p)
       \<and> (\<forall>h. (full2 = None \<or> full2 = Some []) \<and> host2 = Some h
              \<longrightarrow> BASE (OpenAPI w2) = ''https://'' @ h)
       \<and> constructor host2 token2 full2 w = Inr (svc2, w2)
       \<and> svc1 = svc2
       \<and> snd (handleApiOperation e operation msg w2)
           = w2\<lparr>calls := calls w2 @ [(OpenAPI w2, operation)]\<rparr>
       \<and> calls (snd (getContent e svc1 cid None w2))
           = calls w2 @ [(OpenAPI w2, GetContentById cid ''body.storage'')]
       \<and> calls (snd (updateContent e svc1 cid content w2))
           = calls w2 @ [(OpenAPI w2, Update2 cid content)]"
proof -
  have w1: "\<exists>c. w1 = w\<lparr>OpenAPI := c\<rparr>"
    using assms(1) by (auto simp: constructor_def Let_def split: if_splits)
  have same: "constructor host2 token2 full2 w = Inr (svc2, w2)"
  proof (cases rule: constructor_cases [of host2 full2])
    case neither
    then show ?thesis using assms(2) by (simp add: constructor_neither)
  next
    case (full p)
    then show ?thesis using assms(2) w1 by (auto simp: constructor_fullApiUrl)
  next
    case (host h)
    then show ?thesis using assms(2) w1
      by (auto simp: constructor_host [OF host(1) host(3)])
  qed
  have cfg: "TOKEN (OpenAPI w2) = Some token2 \<and> VERSION (OpenAPI w2) = ''1.0''
       \<and> (\<forall>p. full2 = Some p \<and> p \<noteq> [] \<longrightarrow> BASE (OpenAPI w2) = p)
       \<and> (\<forall>h. (full2 = None \<or> full2 = Some []) \<and> host2 = Some h
              \<longrightarrow> BASE (OpenAPI w2) = ''https://'' @ h)"
  proof (cases rule: constructor_cases [of host2 full2])
    case neither
    then show ?thesis using assms(2) by (simp add: constructor_neither)
  next
    case (full p)
    then show ?thesis using assms(2) by (auto simp: constructor_fullApiUrl)
  next
    case (host h)
    then show ?thesis using assms(2)
      by (auto simp: constructor_host [OF host(1) host(3)])
  qed
  have "svc1 = svc2"
    by (cases svc1; cases svc2) simp
  with same cfg show ?thesis
    by (simp add: snd_handleApiOperation snd_getContent_None updateContent_def)
qed

theorem constructor_global_config_witness:
  "constructor (Some ''a.example.com'') ''token-a'' None world0
     = Inr (ConfluenceService,
            world0\<lparr>OpenAPI := \<lparr>BASE = ''https://a.example.com'', TOKEN = Some ''token-a'',
                                 VERSION = ''1.0''\<rparr>\<rparr>)
   \<and> constructor (Some ''b.example.com'') ''token-b'' None
        (world0\<lparr>OpenAPI := \<lparr>BASE = ''https://a.example.com'', TOKEN = Some ''token-a'',
                                 VERSION = ''1.0''\<rparr>\<rparr>)
     = Inr (ConfluenceService,
            world0\<lparr>OpenAPI := \<lparr>BASE = ''https://b.example.com'', TOKEN = Some ''token-b'',
                                 VERSION = ''1.0''\<rparr>\<rparr>)
   \<and> calls (snd (getContent env_ok ConfluenceService ''42'' None
        (world0\<lparr>OpenAPI := \<lparr>BASE = ''https://b.example.com'', TOKEN = Some ''token-b'',
                                 VERSION = ''1.0''\<rparr>\<rparr>)))
     = [(\<lparr>BASE = ''https://b.example.com'', TOKEN = Some ''token-b'', VERSION = ''1.0''\<rparr>,
         GetContentById ''42'' ''body.storage'')]"
proof -
  let ?w1 = "world0\<lparr>OpenAPI := \<lparr>BASE = ''https://a.example.com'', TOKEN = Some ''token-a'',
                                 VERSION = ''1.0''\<rparr>\<rparr>"
  let ?w2 = "world0\<lparr>OpenAPI := \<lparr>BASE = ''https://b.example.com'', TOKEN = Some ''token-b'',
                                 VERSION = ''1.0''\<rparr>\<rparr>"
  have a: "constructor (Some ''a.example.com'') ''token-a'' None world0 = Inr (ConfluenceService, ?w1)"
    by (simp add: constructor_host)
  have b: "constructor (Some ''b.example.com'') ''token-b'' None ?w1 = Inr (ConfluenceService, ?w2)"
    by (simp add: constructor_host)
  have "calls (snd (getContent env_ok ConfluenceService ''42'' None ?w2))
           = calls ?w2 @ [(OpenAPI ?w2, GetContentById ''42'' ''body.storage'')]"
    using constructor_global_config [OF a b, of env_ok "GetContentById ''42'' ''body.storage''"
        "''m''" "''42''"]
    by blast
  then have "calls (snd (getContent env_ok ConfluenceService ''42'' None ?w2))
     = [(\<lparr>BASE = ''https://b.example.com'', TOKEN = Some ''token-b'', VERSION = ''1.0''\<rparr>,
         GetContentById ''42'' ''body.storage'')]"
    by (simp add: world0_def)
  with a b show ?thesis by blast
qed

end
